theory Spec2Isabelle
  imports Complex_Main
begin

section \<open>JavaScript numbers\<close>

text \<open>
  A JavaScript number is modelled as a real number or one of the three special values of
  IEEE 754 arithmetic. The special values follow the IEEE rules the language prescribes
  (division by zero gives an infinity, an undefined operation gives NaN, every comparison
  with NaN is false). Arithmetic on finite values is the exact arithmetic of the reals:
  rounding to 53 bits, overflow and underflow are not modelled, and the negative zero is
  identified with zero.
\<close>

datatype number = Fin real | PInf | NInf | NaN

fun isNaN :: "number \<Rightarrow> bool" where
  "isNaN NaN = True"
| "isNaN _ = False"


fun num_neg :: "number \<Rightarrow> number" where
  "num_neg (Fin a) = Fin (- a)"
| "num_neg PInf = NInf"
| "num_neg NInf = PInf"
| "num_neg NaN = NaN"

fun num_add :: "number \<Rightarrow> number \<Rightarrow> number" where
  "num_add (Fin a) (Fin b) = Fin (a + b)"
| "num_add NaN _ = NaN"
| "num_add _ NaN = NaN"
| "num_add PInf NInf = NaN"
| "num_add NInf PInf = NaN"
| "num_add PInf _ = PInf"
| "num_add _ PInf = PInf"
| "num_add NInf _ = NInf"
| "num_add _ NInf = NInf"

definition num_sub :: "number \<Rightarrow> number \<Rightarrow> number" where
  "num_sub a b = num_add a (num_neg b)"

text \<open>The sign of an infinite product or quotient; zero times infinity is NaN.\<close>

definition signed_inf :: "real \<Rightarrow> number" where
  "signed_inf s = (if s > 0 then PInf else if s < 0 then NInf else NaN)"

fun num_mul :: "number \<Rightarrow> number \<Rightarrow> number" where
  "num_mul (Fin a) (Fin b) = Fin (a * b)"
| "num_mul NaN _ = NaN"
| "num_mul _ NaN = NaN"
| "num_mul PInf (Fin b) = signed_inf b"
| "num_mul NInf (Fin b) = signed_inf (- b)"
| "num_mul (Fin a) PInf = signed_inf a"
| "num_mul (Fin a) NInf = signed_inf (- a)"
| "num_mul PInf PInf = PInf"
| "num_mul PInf NInf = NInf"
| "num_mul NInf PInf = NInf"
| "num_mul NInf NInf = PInf"

text \<open>
  Division never throws: a finite non-zero value over zero is an infinity of the sign of
  the numerator (the zero is the positive one), zero over zero and infinity over infinity
  are NaN.
\<close>

fun num_div :: "number \<Rightarrow> number \<Rightarrow> number" where
  "num_div (Fin a) (Fin b) = (if b = 0 then signed_inf a else Fin (a / b))"
| "num_div NaN _ = NaN"
| "num_div _ NaN = NaN"
| "num_div (Fin a) PInf = Fin 0"
| "num_div (Fin a) NInf = Fin 0"
| "num_div PInf (Fin b) = (if b < 0 then NInf else PInf)"
| "num_div NInf (Fin b) = (if b < 0 then PInf else NInf)"
| "num_div PInf _ = NaN"
| "num_div NInf _ = NaN"

fun num_le :: "number \<Rightarrow> number \<Rightarrow> bool" where
  "num_le (Fin a) (Fin b) = (a \<le> b)"
| "num_le NaN _ = False"
| "num_le _ NaN = False"
| "num_le NInf _ = True"
| "num_le _ PInf = True"
| "num_le _ _ = False"

fun num_lt :: "number \<Rightarrow> number \<Rightarrow> bool" where
  "num_lt (Fin a) (Fin b) = (a < b)"
| "num_lt NaN _ = False"
| "num_lt _ NaN = False"
| "num_lt PInf _ = False"
| "num_lt _ NInf = False"
| "num_lt _ _ = True"

definition num_gt :: "number \<Rightarrow> number \<Rightarrow> bool" where
  "num_gt a b = num_lt b a"

subsection \<open>The functions of \<open>Math\<close> that the sources call\<close>

definition js_PI :: number where
  "js_PI = Fin pi"

fun js_sqrt :: "number \<Rightarrow> number" where
  "js_sqrt (Fin a) = (if a < 0 then NaN else Fin (sqrt a))"
| "js_sqrt PInf = PInf"
| "js_sqrt NInf = NaN"
| "js_sqrt NaN = NaN"

fun js_sin :: "number \<Rightarrow> number" where
  "js_sin (Fin a) = Fin (sin a)"
| "js_sin _ = NaN"






definition is_integral :: "real \<Rightarrow> bool" where
  "is_integral e \<longleftrightarrow> of_int \<lfloor>e\<rfloor> = e"

definition is_odd_integral :: "real \<Rightarrow> bool" where
  "is_odd_integral e \<longleftrightarrow> is_integral e \<and> odd \<lfloor>e\<rfloor>"

text \<open>
  \<open>Math.pow\<close>, in the order of the cases of the language definition: a NaN exponent,
  a zero exponent, a NaN base, an infinite base, a zero base, an infinite exponent, a
  negative base with a fractional exponent, and last the power itself.
\<close>

fun js_pow :: "number \<Rightarrow> number \<Rightarrow> number" where
  "js_pow b NaN = NaN"
| "js_pow b (Fin e) =
     (if e = 0 then Fin 1
      else (case b of
              NaN \<Rightarrow> NaN
            | PInf \<Rightarrow> (if e > 0 then PInf else Fin 0)
            | NInf \<Rightarrow> (if e > 0 then (if is_odd_integral e then NInf else PInf) else Fin 0)
            | Fin x \<Rightarrow>
                (if x = 0 then (if e > 0 then Fin 0 else PInf)
                 else if x > 0 then Fin (x powr e)
                 else if is_integral e
                   then Fin ((if odd \<lfloor>e\<rfloor> then - 1 else 1) * ((- x) powr e))
                 else NaN)))"
| "js_pow b PInf =
     (case b of
        NaN \<Rightarrow> NaN
      | PInf \<Rightarrow> PInf
      | NInf \<Rightarrow> PInf
      | Fin x \<Rightarrow> (if \<bar>x\<bar> > 1 then PInf else if \<bar>x\<bar> = 1 then NaN else Fin 0))"
| "js_pow b NInf =
     (case b of
        NaN \<Rightarrow> NaN
      | PInf \<Rightarrow> Fin 0
      | NInf \<Rightarrow> Fin 0
      | Fin x \<Rightarrow> (if \<bar>x\<bar> > 1 then Fin 0 else if \<bar>x\<bar> = 1 then NaN else PInf))"

text \<open>
  The two-argument arctangent on the reals: the angle in \<open>(-\<pi>, \<pi>]\<close> of the point
  \<open>(x, y)\<close>, and zero at the origin.
\<close>

definition atan2_real :: "real \<Rightarrow> real \<Rightarrow> real" where
  "atan2_real y x =
     (if x > 0 then arctan (y / x)
      else if x < 0 then (if y \<ge> 0 then arctan (y / x) + pi else arctan (y / x) - pi)
      else if y > 0 then pi / 2
      else if y < 0 then - (pi / 2)
      else 0)"

fun js_atan2 :: "number \<Rightarrow> number \<Rightarrow> number" where
  "js_atan2 NaN _ = NaN"
| "js_atan2 _ NaN = NaN"
| "js_atan2 PInf PInf = Fin (pi / 4)"
| "js_atan2 PInf NInf = Fin (3 * pi / 4)"
| "js_atan2 PInf (Fin x) = Fin (pi / 2)"
| "js_atan2 NInf PInf = Fin (- (pi / 4))"
| "js_atan2 NInf NInf = Fin (- (3 * pi / 4))"
| "js_atan2 NInf (Fin x) = Fin (- (pi / 2))"
| "js_atan2 (Fin y) PInf = Fin 0"
| "js_atan2 (Fin y) NInf = (if y \<ge> 0 then Fin pi else Fin (- pi))"
| "js_atan2 (Fin y) (Fin x) = Fin (atan2_real y x)"

section \<open>The formula library (\<open>FORMULAS\<close>)\<close>


definition period :: "number \<Rightarrow> number" where
  "period naturalFreq = num_div (Fin 1) naturalFreq"


section \<open>The earthquake simulation component\<close>

text \<open>
  The \<open>parameters\<close> object of the component. A JavaScript object is a map from
  property names to values; reading a property that is absent gives \<open>undefined\<close>, which
  arithmetic turns into NaN.
\<close>

type_synonym params = "string \<Rightarrow> number option"

definition field :: "params \<Rightarrow> string \<Rightarrow> number" where
  "field obj key = (case obj key of Some v \<Rightarrow> v | None \<Rightarrow> NaN)"

definition initialParameters :: params where
  "initialParameters =
     [''mass'' \<mapsto> Fin 1000,
      ''stiffness'' \<mapsto> Fin 50000,
      ''damping'' \<mapsto> Fin (5 / 100),
      ''groundAccel'' \<mapsto> Fin 5,
      ''frequency'' \<mapsto> Fin (15 / 10),
      ''naturalFreq'' \<mapsto> Fin 0,
      ''period'' \<mapsto> Fin 0]"

text \<open>
  The state of the component (\<open>useState\<close> and \<open>useRef\<close>) together with the part of the
  browser it talks to: the callbacks waiting for the next animation frame, by handle, and
  the next handle \<open>requestAnimationFrame\<close> will hand out. A waiting callback is the
  \<open>animate\<close> closure of one run of the animation effect; it is represented by the
  \<open>parameters\<close> object that run has captured. Speech output and the drawing effect read
  this state and write none of it; they are left out.
\<close>

record sim =
  isPlaying :: bool
  time :: number
  parameters :: params
  displacement :: number
  animationRef :: "nat option"
  frames :: "nat \<Rightarrow> params option"
  nextHandle :: nat

definition initialSim :: sim where
  "initialSim =
     \<lparr>isPlaying = False, time = Fin 0, parameters = initialParameters,
      displacement = Fin 0, animationRef = None,
      frames = Map.empty, nextHandle = 1\<rparr>"

definition requestAnimationFrame :: "params \<Rightarrow> sim \<Rightarrow> sim" where
  "requestAnimationFrame closure w =
     w\<lparr>frames := (frames w)(nextHandle w \<mapsto> closure),
       animationRef := Some (nextHandle w),
       nextHandle := nextHandle w + 1\<rparr>"

definition cancelAnimationFrame :: "nat \<Rightarrow> sim \<Rightarrow> sim" where
  "cancelAnimationFrame h w = w\<lparr>frames := (frames w)(h := None)\<rparr>"

text \<open>
  The first effect: the derived parameters, recomputed when \<open>mass\<close> or \<open>stiffness\<close>
  has changed.
\<close>

definition derivedEffect :: "sim \<Rightarrow> sim" where
  "derivedEffect w =
     (let naturalFreq = num_div
            (js_sqrt (num_div (field (parameters w) ''stiffness'') (field (parameters w) ''mass'')))
            (num_mul (Fin 2) js_PI);
          period = num_div (Fin 1) naturalFreq
      in w\<lparr>parameters := (parameters w)(''naturalFreq'' \<mapsto> naturalFreq, ''period'' \<mapsto> period)\<rparr>)"

text \<open>
  The body of the state updater inside \<open>animate\<close>: the displacement, in metres, at the
  new time, from the parameters the closure has captured.
\<close>

definition structuralDisplacement :: "params \<Rightarrow> number \<Rightarrow> number" where
  "structuralDisplacement p newTime =
     (let omega = num_mul (num_mul (Fin 2) js_PI) (field p ''naturalFreq'');
          excitationRatio = num_div (field p ''frequency'') (field p ''naturalFreq'');
          denominator = js_sqrt (num_add
            (js_pow (num_sub (Fin 1) (num_mul excitationRatio excitationRatio)) (Fin 2))
            (js_pow (num_mul (num_mul (Fin 2) (field p ''damping'')) excitationRatio) (Fin 2)));
          amplificationFactor = num_div (Fin 1) denominator
      in num_mul
           (num_mul amplificationFactor (num_div (field p ''groundAccel'') (num_mul omega omega)))
           (js_sin (num_sub
              (num_mul (num_mul (num_mul (Fin 2) js_PI) (field p ''frequency'')) newTime)
              (js_atan2 (num_mul (num_mul (Fin 2) (field p ''damping'')) excitationRatio)
                        (num_sub (Fin 1) (num_mul excitationRatio excitationRatio))))))"

text \<open>
  One call of \<open>animate\<close>: the new time and displacement are stored, and the same closure
  is requested again for the next frame. There is no test of \<open>isPlaying\<close> and no test of
  the values.
\<close>

definition animate :: "params \<Rightarrow> sim \<Rightarrow> sim" where
  "animate p w =
     (let newTime = num_add (time w) (Fin (2 / 100))
      in requestAnimationFrame p
           (w\<lparr>time := newTime,
              displacement := num_mul (structuralDisplacement p newTime) (Fin 1000)\<rparr>))"

text \<open>
  The second effect, with dependencies \<open>isPlaying\<close> and \<open>parameters\<close>. Its body returns
  at once when the simulation is not playing, and otherwise requests the first frame. The
  cleanup it returns in that case cancels the handle in \<open>animationRef\<close>, if that is
  truthy. When the effect runs again, the cleanup of the previous run comes first; the
  previous run has a cleanup only if it was playing.
\<close>

definition cancelCurrent :: "sim \<Rightarrow> sim" where
  "cancelCurrent w =
     (case animationRef w of
        None \<Rightarrow> w
      | Some h \<Rightarrow> if h \<noteq> 0 then cancelAnimationFrame h w else w)"

definition animationEffect :: "sim \<Rightarrow> sim" where
  "animationEffect w =
     (if \<not> isPlaying w then w else requestAnimationFrame (parameters w) w)"

definition rerunAnimationEffect :: "bool \<Rightarrow> sim \<Rightarrow> sim" where
  "rerunAnimationEffect wasPlaying w =
     animationEffect (if wasPlaying then cancelCurrent w else w)"

text \<open>
  The edit handler. \<open>parseFloat\<close> is the function of the language; the handler is
  modelled for any such function from strings to numbers.
\<close>

definition handleParameterChange ::
  "(string \<Rightarrow> number) \<Rightarrow> string \<Rightarrow> string \<Rightarrow> params \<Rightarrow> params" where
  "handleParameterChange parseFloat param val prev =
     (let numValue = parseFloat val
      in if \<not> isNaN numValue \<and> num_gt numValue (Fin 0)
         then prev(param \<mapsto> numValue)
         else prev)"

text \<open>
  What the user and the browser can do to a mounted component. Each handler runs to its
  end together with the rendering and the effects it causes, before the next event: the
  component runs on one thread. A frame event is the browser calling the callback of a
  handle; a handle that is not waiting (never requested, already called, or cancelled)
  has no callback to call.
\<close>

datatype event = Start | Stop | Reset | Edit string string | Frame nat

definition startSimulation :: "sim \<Rightarrow> sim" where
  "startSimulation w =
     (let w' = w\<lparr>isPlaying := True, time := Fin 0\<rparr>
      in if isPlaying w then w' else rerunAnimationEffect False w')"

definition stopSimulation :: "sim \<Rightarrow> sim" where
  "stopSimulation w =
     (let w' = cancelCurrent (w\<lparr>isPlaying := False\<rparr>)
      in if isPlaying w then rerunAnimationEffect True w' else w')"

definition resetSimulation :: "sim \<Rightarrow> sim" where
  "resetSimulation w =
     (let w' = cancelCurrent (w\<lparr>isPlaying := False, time := Fin 0, displacement := Fin 0\<rparr>)
      in if isPlaying w then rerunAnimationEffect True w' else w')"

definition editParameter :: "(string \<Rightarrow> number) \<Rightarrow> string \<Rightarrow> string \<Rightarrow> sim \<Rightarrow> sim" where
  "editParameter parseFloat param val w =
     (let numValue = parseFloat val
      in if \<not> isNaN numValue \<and> num_gt numValue (Fin 0)
         then
           (let p' = handleParameterChange parseFloat param val (parameters w);
                w1 = rerunAnimationEffect (isPlaying w) (w\<lparr>parameters := p'\<rparr>)
            in if p' ''mass'' = parameters w ''mass'' \<and> p' ''stiffness'' = parameters w ''stiffness''
               then w1
               else rerunAnimationEffect (isPlaying w) (derivedEffect w1))
         else w)"

definition fireFrame :: "nat \<Rightarrow> sim \<Rightarrow> sim" where
  "fireFrame h w =
     (case frames w h of
        None \<Rightarrow> w
      | Some p \<Rightarrow> animate p (w\<lparr>frames := (frames w)(h := None)\<rparr>))"

fun step :: "(string \<Rightarrow> number) \<Rightarrow> sim \<Rightarrow> event \<Rightarrow> sim" where
  "step parseFloat w Start = startSimulation w"
| "step parseFloat w Stop = stopSimulation w"
| "step parseFloat w Reset = resetSimulation w"
| "step parseFloat w (Edit param val) = editParameter parseFloat param val w"
| "step parseFloat w (Frame h) = fireFrame h w"

definition run :: "(string \<Rightarrow> number) \<Rightarrow> event list \<Rightarrow> sim \<Rightarrow> sim" where
  "run parseFloat evs w = foldl (step parseFloat) w evs"

text \<open>
  Mounting runs both effects once: the derived parameters are computed, and the animation
  effect finds the simulation not playing.
\<close>

definition mounted :: sim where
  "mounted = animationEffect (derivedEffect initialSim)"

section \<open>The grid system (\<open>gridSystem.js\<close>)\<close>












section \<open>Auxiliary definitions\<close>


text \<open>
  The scheduling invariant of the component: while it plays, exactly one callback waits,
  under the handle in \<open>animationRef\<close>, and it has captured the current parameters;
  while it does not play, no callback waits.
\<close>

definition scheduled :: "sim \<Rightarrow> bool" where
  "scheduled w \<longleftrightarrow>
     nextHandle w \<ge> 1 \<and>
     (if isPlaying w
      then (case animationRef w of
              None \<Rightarrow> False
            | Some h \<Rightarrow> h \<noteq> 0 \<and> frames w = [h \<mapsto> parameters w])
      else frames w = Map.empty)"





section \<open>Facts about the arithmetic\<close>










section \<open>The scheduling invariant\<close>

lemma scheduled_mounted: "scheduled mounted"
  by (simp add: scheduled_def mounted_def animationEffect_def derivedEffect_def initialSim_def Let_def)

lemma scheduled_rerun:
  assumes "nextHandle w \<ge> 1"
    and "wasPlaying \<Longrightarrow> frames (cancelCurrent w) = Map.empty"
    and "\<not> wasPlaying \<Longrightarrow> frames w = Map.empty"
  shows "scheduled (rerunAnimationEffect wasPlaying w)"
proof -
  have empty: "frames (if wasPlaying then cancelCurrent w else w) = Map.empty"
    using assms(2,3) by simp
  have nh: "nextHandle (if wasPlaying then cancelCurrent w else w) = nextHandle w"
    by (cases "animationRef w") (auto simp: cancelCurrent_def cancelAnimationFrame_def)
  have pl: "isPlaying (if wasPlaying then cancelCurrent w else w) = isPlaying w"
    by (cases "animationRef w") (auto simp: cancelCurrent_def cancelAnimationFrame_def)
  show ?thesis
    using empty nh pl assms(1)
    by (simp add: rerunAnimationEffect_def animationEffect_def scheduled_def
        requestAnimationFrame_def)
qed

lemma cancelCurrent_fields:
  "isPlaying (cancelCurrent w) = isPlaying w"
  "time (cancelCurrent w) = time w"
  "displacement (cancelCurrent w) = displacement w"
  "parameters (cancelCurrent w) = parameters w"
  "nextHandle (cancelCurrent w) = nextHandle w"
  "animationRef (cancelCurrent w) = animationRef w"
  by (cases "animationRef w"; simp add: cancelCurrent_def cancelAnimationFrame_def)+

lemma rerun_fields:
  "isPlaying (rerunAnimationEffect b w) = isPlaying w"
  "time (rerunAnimationEffect b w) = time w"
  "displacement (rerunAnimationEffect b w) = displacement w"
  "parameters (rerunAnimationEffect b w) = parameters w"
  by (simp_all add: cancelCurrent_fields rerunAnimationEffect_def animationEffect_def requestAnimationFrame_def)

lemma rerun_nextHandle: "nextHandle (rerunAnimationEffect b w) \<ge> nextHandle w"
  by (simp add: cancelCurrent_fields rerunAnimationEffect_def animationEffect_def requestAnimationFrame_def)

lemma scheduled_start: "scheduled w \<Longrightarrow> scheduled (startSimulation w)"
proof -
  assume s: "scheduled w"
  show ?thesis
  proof (cases "isPlaying w")
    case True
    with s show ?thesis
      by (auto simp: startSimulation_def scheduled_def Let_def split: option.splits)
  next
    case False
    with s have "frames w = Map.empty" "nextHandle w \<ge> 1" by (auto simp: scheduled_def)
    with False show ?thesis
      unfolding startSimulation_def Let_def
      by (simp add: scheduled_rerun)
  qed
qed

lemma cancelCurrent_frames_empty:
  assumes "scheduled w"
  shows "frames (cancelCurrent (w\<lparr>isPlaying := False\<rparr>)) = Map.empty"
  using assms
  by (cases "animationRef w"; cases "isPlaying w")
     (auto simp: scheduled_def cancelCurrent_def cancelAnimationFrame_def fun_eq_iff)

lemma cancelCurrent_twice:
  "frames (cancelCurrent w) = Map.empty \<Longrightarrow> frames (cancelCurrent (cancelCurrent w)) = Map.empty"
  by (cases "animationRef w") (auto simp: cancelCurrent_def cancelAnimationFrame_def)

lemma scheduled_stop: 
  assumes "scheduled w" shows "scheduled (stopSimulation w)"
proof -
  let ?w' = "cancelCurrent (w\<lparr>isPlaying := False\<rparr>)"
  have e: "frames ?w' = Map.empty" by (rule cancelCurrent_frames_empty [OF assms])
  have n: "nextHandle ?w' \<ge> 1" using assms by (simp add: cancelCurrent_fields scheduled_def)
  have p: "\<not> isPlaying ?w'" by (simp add: cancelCurrent_fields)
  show ?thesis
  proof (cases "isPlaying w")
    case True
    have "scheduled (rerunAnimationEffect True ?w')"
      using e n by (intro scheduled_rerun cancelCurrent_twice) simp_all
    with True show ?thesis by (simp add: stopSimulation_def Let_def)
  next
    case False
    then show ?thesis using e n p by (simp add: stopSimulation_def Let_def scheduled_def)
  qed
qed

lemma scheduled_reset: 
  assumes "scheduled w" shows "scheduled (resetSimulation w)"
proof -
  let ?w' = "cancelCurrent (w\<lparr>isPlaying := False, time := Fin 0, displacement := Fin 0\<rparr>)"
  have e: "frames ?w' = Map.empty" 
    using assms
    by (cases "animationRef w"; cases "isPlaying w")
       (auto simp: scheduled_def cancelCurrent_def cancelAnimationFrame_def fun_eq_iff)
  have n: "nextHandle ?w' \<ge> 1" using assms by (simp add: cancelCurrent_fields scheduled_def)
  have p: "\<not> isPlaying ?w'" by (simp add: cancelCurrent_fields)
  show ?thesis
  proof (cases "isPlaying w")
    case True
    have "scheduled (rerunAnimationEffect True ?w')"
      using e n by (intro scheduled_rerun cancelCurrent_twice) simp_all
    with True show ?thesis by (simp add: resetSimulation_def Let_def)
  next
    case False
    then show ?thesis using e n p by (simp add: resetSimulation_def Let_def scheduled_def)
  qed
qed

lemma scheduled_frame:
  assumes "scheduled w" shows "scheduled (fireFrame h w)"
proof (cases "frames w h")
  case None
  then show ?thesis using assms by (simp add: fireFrame_def)
next
  case (Some p)
  with assms have pl: "isPlaying w" by (auto simp: scheduled_def split: if_splits)
  with assms Some obtain h' where h': "animationRef w = Some h'" "h' \<noteq> 0" "frames w = [h' \<mapsto> parameters w]"
    by (auto simp: scheduled_def split: option.splits)
  with Some have "h = h'" "p = parameters w" by (auto split: if_splits)
  with h' pl assms show ?thesis
    by (simp add: fireFrame_def Some animate_def requestAnimationFrame_def scheduled_def Let_def)
qed

lemma scheduled_rerun_same:
  assumes "scheduled w" and "isPlaying w' = isPlaying w" and "frames w' = frames w"
    and "animationRef w' = animationRef w" and "nextHandle w' = nextHandle w"
  shows "scheduled (rerunAnimationEffect (isPlaying w) w')"
proof (rule scheduled_rerun)
  show "1 \<le> nextHandle w'" using assms by (simp add: scheduled_def)
  show "frames (cancelCurrent w') = Map.empty" if "isPlaying w"
    using assms that
    by (cases "animationRef w")
       (auto simp: scheduled_def cancelCurrent_def cancelAnimationFrame_def)
  show "frames w' = Map.empty" if "\<not> isPlaying w"
    using assms that by (auto simp: scheduled_def)
qed

lemma derivedEffect_fields:
  "isPlaying (derivedEffect w) = isPlaying w"
  "time (derivedEffect w) = time w"
  "displacement (derivedEffect w) = displacement w"
  "frames (derivedEffect w) = frames w"
  "animationRef (derivedEffect w) = animationRef w"
  "nextHandle (derivedEffect w) = nextHandle w"
  by (simp_all add: derivedEffect_def Let_def)

lemma scheduled_edit:
  assumes "scheduled w" shows "scheduled (editParameter pf param val w)"
proof -
  let ?p' = "handleParameterChange pf param val (parameters w)"
  let ?w1 = "rerunAnimationEffect (isPlaying w) (w\<lparr>parameters := ?p'\<rparr>)"
  have s1: "scheduled ?w1"
    by (rule scheduled_rerun_same [OF assms]) simp_all
  have "scheduled (rerunAnimationEffect (isPlaying ?w1) (derivedEffect ?w1))"
    by (rule scheduled_rerun_same [OF s1]) (simp_all add: rerun_fields derivedEffect_fields)
  then have s2: "scheduled (rerunAnimationEffect (isPlaying w) (derivedEffect ?w1))"
    by (simp add: rerun_fields)
  show ?thesis
    using assms s1 s2 by (simp add: editParameter_def Let_def)
qed

lemma scheduled_step: "scheduled w \<Longrightarrow> scheduled (step pf w e)"
  by (cases e) (simp_all add: scheduled_start scheduled_stop scheduled_reset scheduled_edit scheduled_frame)

lemma scheduled_foldl: "scheduled w \<Longrightarrow> scheduled (foldl (step pf) w evs)"
  by (induction evs arbitrary: w) (simp_all add: scheduled_step)

lemma scheduled_run: "scheduled (run pf evs mounted)"
  unfolding run_def by (rule scheduled_foldl [OF scheduled_mounted])

section \<open>Stopping\<close>

lemma stopped_step:
  assumes "scheduled w" and "\<not> isPlaying w" and "e \<noteq> Start" and "e \<noteq> Reset"
  shows "\<not> isPlaying (step pf w e) \<and> time (step pf w e) = time w
       \<and> displacement (step pf w e) = displacement w"
proof (cases e)
  case (Frame h)
  from assms(1,2) have "frames w h = None" by (simp add: scheduled_def)
  with assms(2) Frame show ?thesis by (simp add: fireFrame_def)
next
  case (Edit param val)
  with assms(2) show ?thesis by (simp add: editParameter_def Let_def rerun_fields derivedEffect_fields)
next
  case Stop
  with assms(2) show ?thesis by (simp add: stopSimulation_def Let_def cancelCurrent_fields)
qed (use assms in simp_all)

lemma stopped_foldl:
  assumes "scheduled w" and "\<not> isPlaying w" and "\<forall>e \<in> set evs. e \<noteq> Start \<and> e \<noteq> Reset"
  shows "\<not> isPlaying (foldl (step pf) w evs) \<and> time (foldl (step pf) w evs) = time w
       \<and> displacement (foldl (step pf) w evs) = displacement w"
  using assms
proof (induction evs arbitrary: w)
  case Nil
  then show ?case by simp
next
  case (Cons e evs)
  from Cons.prems have e: "e \<noteq> Start" "e \<noteq> Reset" by simp_all
  note st = stopped_step [OF Cons.prems(1,2) e, of pf]
  have "scheduled (step pf w e)" by (rule scheduled_step [OF Cons.prems(1)])
  from Cons.IH [OF this] st Cons.prems(3) show ?case by simp
qed

lemma stop_not_playing: "\<not> isPlaying (stopSimulation w)"
  by (simp add: stopSimulation_def Let_def rerun_fields cancelCurrent_fields)

lemma stop_no_frames:
  assumes "scheduled w" shows "frames (stopSimulation w) = Map.empty"
  using scheduled_stop [OF assms] stop_not_playing [of w] by (simp add: scheduled_def)

text \<open>
  C3. After \<open>stop()\<close>, whatever happened before, no callback waits for a frame, and
  no later event other than a new start or a reset changes the elapsed time or the
  displacement: a frame event for any handle, also for one requested before the stop,
  finds no callback to run, and edits and further stops leave both values alone. The stop
  itself keeps both values.
\<close>

theorem C3_stop_freezes_state:
  assumes "\<forall>e \<in> set later. e \<noteq> Start \<and> e \<noteq> Reset"
  shows "frames (run pf (earlier @ [Stop]) mounted) = Map.empty
       \<and> time (run pf (earlier @ [Stop] @ later) mounted) = time (run pf (earlier @ [Stop]) mounted)
       \<and> displacement (run pf (earlier @ [Stop] @ later) mounted)
           = displacement (run pf (earlier @ [Stop]) mounted)
       \<and> time (run pf (earlier @ [Stop]) mounted) = time (run pf earlier mounted)
       \<and> displacement (run pf (earlier @ [Stop]) mounted) = displacement (run pf earlier mounted)"
proof -
  let ?w = "run pf earlier mounted"
  have sw: "scheduled ?w" by (rule scheduled_run)
  have s: "scheduled (stopSimulation ?w)" by (rule scheduled_stop [OF sw])
  have r1: "run pf (earlier @ [Stop]) mounted = stopSimulation ?w"
    by (simp add: run_def)
  have r2: "run pf (earlier @ [Stop] @ later) mounted = foldl (step pf) (stopSimulation ?w) later"
    by (simp add: run_def)
  have keep: "time (stopSimulation ?w) = time ?w" "displacement (stopSimulation ?w) = displacement ?w"
    by (simp_all add: stopSimulation_def Let_def rerun_fields cancelCurrent_fields)
  show ?thesis
    unfolding r1 r2
    using stopped_foldl [OF s stop_not_playing assms, of pf] stop_no_frames [OF sw] keep
    by simp
qed

lemmas sim_defs = run_def mounted_def initialSim_def startSimulation_def stopSimulation_def
  fireFrame_def animate_def animationEffect_def rerunAnimationEffect_def cancelCurrent_def
  cancelAnimationFrame_def requestAnimationFrame_def derivedEffect_def Let_def

lemma time_after_one_tick: "time (run pf [Start, Frame 1, Stop] mounted) = Fin (2 / 100)"
  by (simp add: sim_defs)

theorem C3_stop_freezes_state_witness:
  "list_all (\<lambda>e. e \<noteq> Start \<and> e \<noteq> Reset) [Frame 2, Frame 1, Edit ''mass'' ''2000'', Stop]
   \<and> time (run (\<lambda>s. Fin 2000) ([Start, Frame 1] @ [Stop]
              @ [Frame 2, Frame 1, Edit ''mass'' ''2000'', Stop]) mounted) = Fin (2 / 100)"
  using C3_stop_freezes_state [of "[Frame 2, Frame 1, Edit ''mass'' ''2000'', Stop]"
      "\<lambda>s. Fin 2000" "[Start, Frame 1]"] time_after_one_tick [of "\<lambda>s. Fin 2000"]
  by simp

section \<open>The tick\<close>














section \<open>Parameter edits\<close>

text \<open>
  C10. An edit of the field \<open>p\<close> with the string \<open>v\<close>: if \<open>parseFloat(v)\<close> is NaN or at
  most 0, the parameters are unchanged, and so is the whole component; otherwise the field
  \<open>p\<close> becomes \<open>parseFloat(v)\<close> and the handler leaves every other field as it was.
\<close>

theorem C10_edit_validation:
  "(isNaN (parseFloat v) \<or> num_le (parseFloat v) (Fin 0) \<longrightarrow>
      handleParameterChange parseFloat p v prev = prev
      \<and> editParameter parseFloat p v w = w)
   \<and> (\<not> (isNaN (parseFloat v) \<or> num_le (parseFloat v) (Fin 0)) \<longrightarrow>
      handleParameterChange parseFloat p v prev p = Some (parseFloat v)
      \<and> (\<forall>q. q \<noteq> p \<longrightarrow> handleParameterChange parseFloat p v prev q = prev q)
      \<and> (\<forall>q. q \<noteq> p \<and> q \<noteq> ''naturalFreq'' \<and> q \<noteq> ''period'' \<longrightarrow>
             parameters (editParameter parseFloat p v w) q = parameters w q))"
proof -
  have accepted: "\<not> isNaN (parseFloat v) \<and> num_gt (parseFloat v) (Fin 0)
                  \<longleftrightarrow> \<not> (isNaN (parseFloat v) \<or> num_le (parseFloat v) (Fin 0))"
    by (cases "parseFloat v") (auto simp: num_gt_def)
  show ?thesis
    unfolding handleParameterChange_def editParameter_def Let_def accepted
    by (simp add: derivedEffect_def Let_def rerun_fields)
qed

theorem C10_edit_validation_witness:
  "isNaN ((\<lambda>s. if s = ''2000'' then Fin 2000 else NaN) ''abc'')
   \<and> handleParameterChange (\<lambda>s. if s = ''2000'' then Fin 2000 else NaN) ''mass'' ''abc''
        initialParameters = initialParameters
   \<and> \<not> (isNaN ((\<lambda>s. if s = ''2000'' then Fin 2000 else NaN) ''2000'')
        \<or> num_le ((\<lambda>s. if s = ''2000'' then Fin 2000 else NaN) ''2000'') (Fin 0))
   \<and> handleParameterChange (\<lambda>s. if s = ''2000'' then Fin 2000 else NaN) ''mass'' ''2000''
        initialParameters ''mass'' = Some (Fin 2000)
   \<and> ''stiffness'' \<noteq> ''mass''
   \<and> handleParameterChange (\<lambda>s. if s = ''2000'' then Fin 2000 else NaN) ''mass'' ''2000''
        initialParameters ''stiffness'' = Some (Fin 50000)"
  using C10_edit_validation [of "\<lambda>s. if s = ''2000'' then Fin 2000 else NaN" "''abc''" "''mass''"
      initialParameters]
    C10_edit_validation [of "\<lambda>s. if s = ''2000'' then Fin 2000 else NaN" "''2000''" "''mass''"
      initialParameters]
  by (simp add: initialParameters_def)

section \<open>Tick marks\<close>









section \<open>Grid spacing\<close>














section \<open>Isometric projection\<close>







end
